theory Spec2Isabelle
  imports Main "HOL-Library.Multiset" "HOL-Library.Char_ord" "HOL-Library.List_Lexorder"
begin

section \<open>The ERPNext to Nextcloud Talk webhook relay (app/main.py)\<close>

subsection \<open>Parsed JSON values\<close>

text \<open>
  What \<open>json.loads\<close>, \<open>request.get_json()\<close> and \<open>response.json()\<close> return. A Python
  dict is an association list in insertion order; its keys are pairwise distinct
  (\<open>wf_json\<close>). Numbers are the integers: a fractional number is outside the model.
  A \<open>char\<close> of a payload string stands for one code point below 256.
\<close>

datatype json =
    JNull
  | JBool bool
  | JInt int
  | JStr string
  | JArr "json list"
  | JObj "(string \<times> json) list"

fun wf_json :: "json \<Rightarrow> bool" where
  "wf_json (JArr xs) = list_all wf_json xs"
| "wf_json (JObj kvs) = (distinct (map fst kvs) \<and> list_all (\<lambda>(k, v). wf_json v) kvs)"
| "wf_json v = True"

text \<open>Python truth value of a parsed value (\<open>if data:\<close>, \<open>if room_token:\<close>, ...).\<close>

fun truthy :: "json \<Rightarrow> bool" where
  "truthy JNull = False"
| "truthy (JBool b) = b"
| "truthy (JInt i) = (i \<noteq> 0)"
| "truthy (JStr s) = (s \<noteq> [])"
| "truthy (JArr xs) = (xs \<noteq> [])"
| "truthy (JObj kvs) = (kvs \<noteq> [])"

text \<open>
  Exceptions that no handler of the source catches. \<open>BadRequest\<close> is what
  \<open>request.get_json()\<close> raises on a body that does not parse; the others end the request
  as an unhandled exception.
\<close>

datatype error = AttributeError | BadRequest | IntegrityError | InterfaceError | OverflowError

text \<open>\<open>d.get(k)\<close> and \<open>d.get(k, default)\<close>: only a dict has the method.\<close>

fun py_get_default :: "json \<Rightarrow> string \<Rightarrow> json \<Rightarrow> error + json" where
  "py_get_default (JObj kvs) k d = Inr (case map_of kvs k of None \<Rightarrow> d | Some v \<Rightarrow> v)"
| "py_get_default v k d = Inl AttributeError"

definition py_get :: "json \<Rightarrow> string \<Rightarrow> error + json" where
  "py_get v k = py_get_default v k JNull"

subsection \<open>String operations of the source\<close>

text \<open>\<open>s.replace(old, new)\<close>: every non-overlapping occurrence, left to right.\<close>

function replace_nonempty :: "string \<Rightarrow> string \<Rightarrow> string \<Rightarrow> string" where
  "replace_nonempty old new s =
     (if old = [] \<or> s = [] then s
      else if take (length old) s = old
        then new @ replace_nonempty old new (drop (length old) s)
        else hd s # replace_nonempty old new (tl s))"
  by pat_completeness auto
termination
  by (relation "measure (\<lambda>(old, new, s). length s)") auto

declare replace_nonempty.simps [simp del]

definition str_replace :: "string \<Rightarrow> string \<Rightarrow> string \<Rightarrow> string" where
  "str_replace old new s =
     (if old = [] then new @ concat (map (\<lambda>c. c # new) s)
      else replace_nonempty old new s)"

text \<open>\<open>s.rstrip('/')\<close>.\<close>

definition rstrip_slash :: "string \<Rightarrow> string" where
  "rstrip_slash s = rev (dropWhile (\<lambda>c. c = CHR ''/'') (rev s))"

text \<open>
  \<open>s.lower()\<close> on code points below 256: the letters A to Z and the capitals U+00C0 to
  U+00DE, but the multiplication sign U+00D7, move up by 32; everything else stays.
\<close>

definition lower_char :: "char \<Rightarrow> char" where
  "lower_char c =
     (if (CHR 0x41 \<le> c \<and> c \<le> CHR 0x5A)
         \<or> (CHR 0xC0 \<le> c \<and> c \<le> CHR 0xDE \<and> c \<noteq> CHR 0xD7)
      then char_of (of_char c + (32::nat)) else c)"

definition str_lower :: "string \<Rightarrow> string" where
  "str_lower s = map lower_char s"

text \<open>Decimal rendering of an integer, as \<open>str\<close> and \<open>json.dumps\<close> print it.\<close>

function dec_nat :: "nat \<Rightarrow> string" where
  "dec_nat n =
     (if n < 10 then [char_of (48 + n)]
      else dec_nat (n div 10) @ [char_of (48 + n mod 10)])"
  by pat_completeness auto
termination
  by (relation "measure id") auto

declare dec_nat.simps [simp del]

definition dec_int :: "int \<Rightarrow> string" where
  "dec_int i = (if i < 0 then CHR ''-'' # dec_nat (nat (- i)) else dec_nat (nat i))"

fun join :: "string \<Rightarrow> string list \<Rightarrow> string" where
  "join sep [] = []"
| "join sep [x] = x"
| "join sep (x # y # ys) = x @ sep @ join sep (y # ys)"

subsection \<open>\<open>json.dumps(data, sort_keys=True)\<close>\<close>

definition hex_digit :: "nat \<Rightarrow> char" where
  "hex_digit d = (if d < 10 then char_of (48 + d) else char_of (87 + d))"

text \<open>One character of a string literal under \<open>ensure_ascii\<close>.\<close>

definition escape_char :: "char \<Rightarrow> string" where
  "escape_char c =
     (if c = CHR 0x22 then [CHR 0x5C, CHR 0x22]
      else if c = CHR 0x5C then [CHR 0x5C, CHR 0x5C]
      else if c = CHR 0x0A then [CHR 0x5C, CHR ''n'']
      else if c = CHR 0x0D then [CHR 0x5C, CHR ''r'']
      else if c = CHR 0x09 then [CHR 0x5C, CHR ''t'']
      else if c = CHR 0x08 then [CHR 0x5C, CHR ''b'']
      else if c = CHR 0x0C then [CHR 0x5C, CHR ''f'']
      else if CHR 0x20 \<le> c \<and> c \<le> CHR 0x7E then [c]
      else [CHR 0x5C, CHR ''u'', CHR ''0'', CHR ''0'',
            hex_digit (of_char c div 16), hex_digit (of_char c mod 16)])"

definition encode_str :: "string \<Rightarrow> string" where
  "encode_str s = [CHR 0x22] @ concat (map escape_char s) @ [CHR 0x22]"

text \<open>
  The encoder sorts the items of every dict by key when \<open>sort_keys\<close> is set, and
  separates with \<open>", "\<close> and \<open>": "\<close>.
\<close>

fun json_dumps :: "bool \<Rightarrow> json \<Rightarrow> string" where
  "json_dumps sk JNull = ''null''"
| "json_dumps sk (JBool b) = (if b then ''true'' else ''false'')"
| "json_dumps sk (JInt i) = dec_int i"
| "json_dumps sk (JStr s) = encode_str s"
| "json_dumps sk (JArr xs) = ''['' @ join '', '' (map (json_dumps sk) xs) @ '']''"
| "json_dumps sk (JObj kvs) =
     (let items = map (\<lambda>(k, v). (k, encode_str k @ '': '' @ json_dumps sk v)) kvs
      in ''{'' @ join '', '' (map snd (if sk then sort_key fst items else items)) @ ''}'')"

subsection \<open>\<open>get_talk_username\<close>\<close>

definition get_talk_username :: "json \<Rightarrow> error + string" where
  "get_talk_username full_name =
     (case full_name of
        JStr s \<Rightarrow> Inr (str_replace '' '' '' '' s)
      | _ \<Rightarrow> Inl AttributeError)"

subsection \<open>The outside world\<close>

text \<open>
  What \<open>requests.get\<close> and \<open>requests.post\<close> give: a response with its status code and
  parsed body, or a transport failure (a \<open>RequestException\<close> that is no \<open>HTTPError\<close>).
  \<open>raise_for_status\<close> raises \<open>HTTPError\<close> on the 4xx and 5xx codes. A successful
  response whose body is not JSON is outside the model.
\<close>

datatype http_result = Response nat json | TransportError

definition raises_for_status :: "nat \<Rightarrow> bool" where
  "raises_for_status code = (400 \<le> code \<and> code < 600)"

text \<open>
  The configuration and the collaborators of one request. \<open>ERPNEXT_API_URL\<close> is
  \<open>os.getenv\<close>'s result. \<open>room_api k invite\<close> answers the \<open>k\<close>-th POST (from 0) of one
  \<open>create_talk_conversation\<close> call. \<open>room_token_not_null\<close> says whether the schema
  (schema.sql, not part of the sources) declares \<open>user_cache.room_token\<close> NOT NULL
  (with no default), and \<open>room_token_affinity\<close> is what that column makes of a value
  stored in it (its type affinity: a TEXT column turns an integer into its digits).
  \<open>repr_str\<close> is Python's \<open>repr\<close> of a \<open>str\<close>, used when an f-string prints a list or a
  dict.
\<close>

record env =
  ERPNEXT_API_URL :: "string option"
  users_api :: "json \<Rightarrow> http_result"
  room_api :: "nat \<Rightarrow> string \<Rightarrow> http_result"
  chat_api :: "json \<Rightarrow> string \<Rightarrow> http_result"
  room_token_not_null :: bool
  room_token_affinity :: "json \<Rightarrow> json"
  repr_str :: "string \<Rightarrow> string"

text \<open>
  The two tables of the database and the log of what the request did to the outside:
  every statement run on the database (an insert with its commit), every outbound
  HTTP call and every \<open>time.sleep\<close>, in order.
\<close>

datatype event =
    SelectProcessed string
  | InsertProcessed string
  | GetUser json
  | SelectCache string
  | InsertCache string json
  | PostRoom string
  | Sleep nat
  | PostChat json string

record state =
  processed_webhooks :: "string list"
  user_cache :: "string \<rightharpoonup> json"
  trace :: "event list"

definition emit :: "event \<Rightarrow> state \<Rightarrow> state" where
  "emit e st = st\<lparr>trace := trace st @ [e]\<rparr>"

subsection \<open>Printing a value in an f-string\<close>

fun py_repr :: "(string \<Rightarrow> string) \<Rightarrow> json \<Rightarrow> string" where
  "py_repr rs JNull = ''None''"
| "py_repr rs (JBool b) = (if b then ''True'' else ''False'')"
| "py_repr rs (JInt i) = dec_int i"
| "py_repr rs (JStr s) = rs s"
| "py_repr rs (JArr xs) = ''['' @ join '', '' (map (py_repr rs) xs) @ '']''"
| "py_repr rs (JObj kvs) =
     ''{'' @ join '', '' (map (\<lambda>(k, v). rs k @ '': '' @ py_repr rs v) kvs) @ ''}''"

definition py_str :: "(string \<Rightarrow> string) \<Rightarrow> json \<Rightarrow> string" where
  "py_str rs v = (case v of JStr s \<Rightarrow> s | _ \<Rightarrow> py_repr rs v)"

subsection \<open>\<open>fetch_user_details\<close>\<close>

text \<open>
  One GET. An \<open>HTTPError\<close> or a transport failure is caught and gives \<open>None\<close>; the
  \<open>AttributeError\<close> of \<open>.get\<close> on a body that is no dict is not caught.
\<close>

definition fetch_user_details :: "env \<Rightarrow> json \<Rightarrow> state \<Rightarrow> (error + json) \<times> state" where
  "fetch_user_details cfg email st =
     (let st1 = emit (GetUser email) st in
      case users_api cfg email of
        TransportError \<Rightarrow> (Inr JNull, st1)
      | Response code body \<Rightarrow>
          if raises_for_status code then (Inr JNull, st1)
          else (py_get body ''data'', st1))"

subsection \<open>\<open>create_talk_conversation\<close>\<close>

text \<open>
  What sqlite3 stores for a bound parameter: \<open>None\<close>, an \<open>int\<close> of 64 bits (a \<open>bool\<close> is
  one) or a \<open>str\<close>; a list or a dict cannot be bound (\<open>InterfaceError\<close>, which Python
  3.11 renamed), a larger \<open>int\<close> overflows.
\<close>

fun sqlite_value :: "json \<Rightarrow> error + json" where
  "sqlite_value (JArr xs) = Inl InterfaceError"
| "sqlite_value (JObj kvs) = Inl InterfaceError"
| "sqlite_value (JBool b) = Inr (JInt (if b then 1 else 0))"
| "sqlite_value (JInt i) =
     (if - (2 ^ 63) \<le> i \<and> i < 2 ^ 63 then Inr (JInt i) else Inl OverflowError)"
| "sqlite_value v = Inr v"

text \<open>
  \<open>INSERT OR REPLACE INTO user_cache\<close> followed by \<open>db.commit()\<close>. The row holds what the
  column makes of the bound value, and that is what a later \<open>SELECT\<close> reads.
\<close>

definition cache_put :: "env \<Rightarrow> string \<Rightarrow> json \<Rightarrow> state \<Rightarrow> error + state" where
  "cache_put cfg username room_token st =
     (case sqlite_value room_token of
        Inl e \<Rightarrow> Inl e
      | Inr v \<Rightarrow>
          if room_token_not_null cfg \<and> v = JNull then Inl IntegrityError
          else Inr ((emit (InsertCache username v) st)
                      \<lparr>user_cache :=
                         (user_cache st)(username \<mapsto> room_token_affinity cfg v)\<rparr>))"

definition max_retries :: nat where
  "max_retries = 5"

text \<open>The body of one successful response (lines 131 to 144).\<close>

definition room_created :: "env \<Rightarrow> string \<Rightarrow> json \<Rightarrow> state \<Rightarrow> (error + json) \<times> state" where
  "room_created cfg invite_username body st =
     (case py_get_default body ''ocs'' (JObj []) of
        Inl e \<Rightarrow> (Inl e, st)
      | Inr ocs \<Rightarrow>
          (case py_get ocs ''data'' of
             Inl e \<Rightarrow> (Inl e, st)
           | Inr room_data \<Rightarrow>
               if truthy room_data then
                 (case py_get room_data ''token'' of
                    Inl e \<Rightarrow> (Inl e, st)
                  | Inr room_token \<Rightarrow>
                      (case cache_put cfg invite_username room_token st of
                         Inl e \<Rightarrow> (Inl e, st)
                       | Inr st' \<Rightarrow> (Inr room_token, st')))
               else (Inr JNull, st)))"

text \<open>The \<open>while retries < max_retries\<close> loop.\<close>

function create_loop ::
  "env \<Rightarrow> string \<Rightarrow> nat \<Rightarrow> nat \<Rightarrow> state \<Rightarrow> (error + json) \<times> state" where
  "create_loop cfg invite_username retries backoff_delay st =
     (if retries < max_retries then
        (let st1 = emit (PostRoom invite_username) st in
         case room_api cfg retries invite_username of
           TransportError \<Rightarrow> (Inr JNull, st1)
         | Response code body \<Rightarrow>
             if raises_for_status code then
               (if code = 429 then
                  create_loop cfg invite_username (retries + 1) (backoff_delay * 2)
                    (emit (Sleep backoff_delay) st1)
                else (Inr JNull, st1))
             else room_created cfg invite_username body st1)
      else (Inr JNull, st))"
  by pat_completeness auto
termination
  by (relation "measure (\<lambda>(cfg, u, retries, b, st). max_retries - retries)") auto

declare create_loop.simps [simp del]

definition create_talk_conversation ::
  "env \<Rightarrow> string \<Rightarrow> state \<Rightarrow> (error + json) \<times> state" where
  "create_talk_conversation cfg invite_username st =
     (let st1 = emit (SelectCache invite_username) st in
      case user_cache st invite_username of
        Some room_token \<Rightarrow> (Inr room_token, st1)
      | None \<Rightarrow> create_loop cfg invite_username 0 1 st1)"

subsection \<open>\<open>send_talk_message\<close>\<close>

definition send_talk_message :: "env \<Rightarrow> json \<Rightarrow> string \<Rightarrow> state \<Rightarrow> bool \<times> state" where
  "send_talk_message cfg room_token message st =
     (let st1 = emit (PostChat room_token message) st in
      case chat_api cfg room_token message of
        TransportError \<Rightarrow> (False, st1)
      | Response code body \<Rightarrow> (\<not> raises_for_status code, st1))"

subsection \<open>\<open>webhook_listener\<close>\<close>

text \<open>
  A request as the handler reads it. \<open>JsonRequest p\<close> has a JSON content type
  (\<open>request.is_json\<close>); \<open>p\<close> is what its body parses to, \<open>None\<close> when it does not parse.
  \<open>FormRequest ks\<close> is a form body: one entry per key, in order, holding what
  \<open>json.loads\<close> makes of the key, \<open>None\<close> where it raises \<open>JSONDecodeError\<close>.
\<close>

datatype request = JsonRequest "json option" | FormRequest "json option list" | OtherRequest

text \<open>The returned dict has one key, \<open>"error"\<close> or \<open>"message"\<close>; the number is the status.\<close>

datatype body = ErrorBody string | MessageBody string

type_synonym response = "body \<times> nat"

text \<open>The \<open>for key in request.form.keys()\<close> loop: the first key that parses, then \<open>break\<close>.\<close>

fun first_parsed :: "json option list \<Rightarrow> json option" where
  "first_parsed [] = None"
| "first_parsed (None # ks) = first_parsed ks"
| "first_parsed (Some d # ks) = Some d"

text \<open>Line 230: \<open>rstrip\<close> on an unset URL and \<open>lower\<close> on anything but a \<open>str\<close> raise.\<close>

definition erpnext_doc_url :: "env \<Rightarrow> json \<Rightarrow> json \<Rightarrow> error + string" where
  "erpnext_doc_url cfg reference_type reference_name =
     (case ERPNEXT_API_URL cfg of
        None \<Rightarrow> Inl AttributeError
      | Some url \<Rightarrow>
          (case reference_type of
             JStr t \<Rightarrow>
               Inr (rstrip_slash url @ ''/app/'' @ str_lower t @ ''/''
                      @ py_str (repr_str cfg) reference_name)
           | _ \<Rightarrow> Inl AttributeError))"

text \<open>Lines 241 to 247; the characters outside ASCII are written as their UTF-8 bytes.\<close>

definition notification_message ::
  "(string \<Rightarrow> string) \<Rightarrow> string \<Rightarrow> json \<Rightarrow> json \<Rightarrow> json \<Rightarrow> string \<Rightarrow> json \<Rightarrow> string" where
  "notification_message rs full_name due_date reference_type reference_name doc_url
     assigned_by_full_name =
     [CHR 0xF0, CHR 0x9F, CHR 0x91, CHR 0x8B] @ '' Hey '' @ full_name @ '', you''
       @ [CHR 0xE2, CHR 0x80, CHR 0x99] @ ''ve been assigned a new task!'' @ [CHR 0x0A, CHR 0x0A]
     @ (if truthy due_date
        then ''*'' @ [CHR 0xF0, CHR 0x9F, CHR 0x93, CHR 0x85] @ '' Date:* ''
               @ py_str rs due_date @ [CHR 0x0A]
        else [])
     @ ''*'' @ [CHR 0xF0, CHR 0x9F, CHR 0x93, CHR 0x8C] @ '' Type:* ''
       @ py_str rs reference_type @ [CHR 0x0A]
     @ ''*'' @ [CHR 0xF0, CHR 0x9F, CHR 0x86, CHR 0x94] @ '' Reference:* [''
       @ py_str rs reference_name @ ''](''  @ doc_url @ '')'' @ [CHR 0x0A]
     @ ''*'' @ [CHR 0xF0, CHR 0x9F, CHR 0x91, CHR 0xA4] @ '' Assigned By:* ''
       @ py_str rs assigned_by_full_name @ [CHR 0x0A, CHR 0x0A]
     @ ''Please check it out and take the necessary action.''"

definition missing_allocated_to :: string where
  "missing_allocated_to =
     ''Missing '' @ [CHR 0x27] @ ''allocated_to'' @ [CHR 0x27] @ '' in webhook payload''"

text \<open>Lines 232 to 265: from the check of \<open>allocated_to\<close> to the response.\<close>

definition notify ::
  "env \<Rightarrow> json \<Rightarrow> json \<Rightarrow> json \<Rightarrow> json \<Rightarrow> json \<Rightarrow> string \<Rightarrow> state
     \<Rightarrow> (error + response) \<times> state" where
  "notify cfg allocated_to_email reference_type reference_name assigned_by_full_name
     due_date doc_url st =
     (if truthy allocated_to_email then
        (case fetch_user_details cfg allocated_to_email st of
           (Inl e, st1) \<Rightarrow> (Inl e, st1)
         | (Inr user_details, st1) \<Rightarrow>
             if truthy user_details then
               (case py_get user_details ''full_name'' of
                  Inl e \<Rightarrow> (Inl e, st1)
                | Inr full_name \<Rightarrow>
                    if truthy full_name then
                      (case get_talk_username full_name of
                         Inl e \<Rightarrow> (Inl e, st1)
                       | Inr talk_username \<Rightarrow>
                           (let message = notification_message (repr_str cfg)
                                  (py_str (repr_str cfg) full_name) due_date reference_type
                                  reference_name doc_url assigned_by_full_name
                            in case create_talk_conversation cfg talk_username st1 of
                                 (Inl e, st2) \<Rightarrow> (Inl e, st2)
                               | (Inr room_token, st2) \<Rightarrow>
                                   if truthy room_token then
                                     (let (sent, st3) =
                                            send_talk_message cfg room_token message st2
                                      in (Inr (MessageBody
                                                 ''Notification sent to Nextcloud Talk'', 200),
                                          st3))
                                   else
                                     (Inr (ErrorBody
                                             ''Could not create or find Talk conversation'',
                                           500), st2)))
                    else (Inr (ErrorBody ''Could not retrieve full name'', 500), st1))
             else
               (Inr (ErrorBody (''Could not fetch user details for ''
                                  @ py_str (repr_str cfg) allocated_to_email), 500), st1))
      else (Inr (ErrorBody missing_allocated_to, 400), st))"

text \<open>
  Lines 210 to 230: the fingerprint, the check for a duplicate, the insert with its
  commit, and the five \<open>data.get\<close>.
\<close>

definition process_payload :: "env \<Rightarrow> json \<Rightarrow> state \<Rightarrow> (error + response) \<times> state" where
  "process_payload cfg data st =
     (let data_str = json_dumps True data;
          st1 = emit (SelectProcessed data_str) st
      in if data_str \<in> set (processed_webhooks st) then
           (Inr (MessageBody ''Webhook already processed'', 200), st1)
         else
           (let st2 = (emit (InsertProcessed data_str) st1)
                        \<lparr>processed_webhooks := processed_webhooks st @ [data_str]\<rparr>
            in case py_get data ''allocated_to'' of
                 Inl e \<Rightarrow> (Inl e, st2)
               | Inr allocated_to_email \<Rightarrow>
            (case py_get data ''reference_type'' of
                 Inl e \<Rightarrow> (Inl e, st2)
               | Inr reference_type \<Rightarrow>
            (case py_get data ''reference_name'' of
                 Inl e \<Rightarrow> (Inl e, st2)
               | Inr reference_name \<Rightarrow>
            (case py_get data ''assigned_by_full_name'' of
                 Inl e \<Rightarrow> (Inl e, st2)
               | Inr assigned_by_full_name \<Rightarrow>
            (case py_get data ''due_date'' of
                 Inl e \<Rightarrow> (Inl e, st2)
               | Inr due_date \<Rightarrow>
            (case erpnext_doc_url cfg reference_type reference_name of
                 Inl e \<Rightarrow> (Inl e, st2)
               | Inr doc_url \<Rightarrow>
                   notify cfg allocated_to_email reference_type reference_name
                     assigned_by_full_name due_date doc_url st2)))))))"

text \<open>Lines 209 and 266: \<open>if data:\<close>, where \<open>data\<close> may still be \<open>None\<close>.\<close>

definition handle_data :: "env \<Rightarrow> json option \<Rightarrow> state \<Rightarrow> (error + response) \<times> state" where
  "handle_data cfg data st =
     (case data of
        None \<Rightarrow> (Inr (ErrorBody ''No usable data received'', 400), st)
      | Some d \<Rightarrow>
          if truthy d then process_payload cfg d st
          else (Inr (ErrorBody ''No usable data received'', 400), st))"

definition webhook_listener :: "env \<Rightarrow> request \<Rightarrow> state \<Rightarrow> (error + response) \<times> state" where
  "webhook_listener cfg req st =
     (case req of
        JsonRequest None \<Rightarrow> (Inl BadRequest, st)
      | JsonRequest (Some d) \<Rightarrow> handle_data cfg (Some d) st
      | FormRequest ks \<Rightarrow>
          if ks \<noteq> [] then handle_data cfg (first_parsed ks) st
          else (Inr (ErrorBody ''No data or unsupported data format'', 400), st)
      | OtherRequest \<Rightarrow> (Inr (ErrorBody ''No data or unsupported data format'', 400), st))"

subsection \<open>Notions the properties are stated with\<close>

text \<open>The payload the handler obtains from a request, if any (lines 190 to 207).\<close>

fun parsed_payload :: "request \<Rightarrow> json option" where
  "parsed_payload (JsonRequest p) = p"
| "parsed_payload (FormRequest ks) = first_parsed ks"
| "parsed_payload OtherRequest = None"

text \<open>
  \<open>key_reordered a b\<close>: \<open>b\<close> is \<open>a\<close> with the keys of its dicts, at any depth, written in
  another order.
\<close>

inductive key_reordered :: "json \<Rightarrow> json \<Rightarrow> bool" where
  same: "key_reordered v v"
| arr: "list_all2 key_reordered xs ys \<Longrightarrow> key_reordered (JArr xs) (JArr ys)"
| obj: "list_all2 (\<lambda>p q. fst p = fst q \<and> key_reordered (snd p) (snd q)) kvs kvs1
        \<Longrightarrow> mset kvs1 = mset kvs' \<Longrightarrow> key_reordered (JObj kvs) (JObj kvs')"

text \<open>An outbound call fails: no response, or \<open>raise_for_status\<close> raises.\<close>

fun request_failed :: "http_result \<Rightarrow> bool" where
  "request_failed TransportError = True"
| "request_failed (Response code body) = raises_for_status code"

subsection \<open>Frame of a request, and an example world\<close>

text \<open>
  \<open>advances st st'\<close>: from \<open>st\<close> to \<open>st'\<close> the log only grew and no fingerprint was added
  or removed.
\<close>

definition advances :: "state \<Rightarrow> state \<Rightarrow> bool" where
  "advances st st' =
     (processed_webhooks st' = processed_webhooks st \<and> (\<exists>evs. trace st' = trace st @ evs))"

text \<open>
  The scenario of the specification: an empty database whose \<open>room_token\<close> column is
  TEXT, a directory that knows Alice Smith, a room API that answers with the token
  \<open>tok1\<close>, a chat API that accepts.
\<close>

fun text_affinity :: "json \<Rightarrow> json" where
  "text_affinity (JInt i) = JStr (dec_int i)"
| "text_affinity v = v"

definition empty_state :: state where
  "empty_state = \<lparr>processed_webhooks = [], user_cache = Map.empty, trace = []\<rparr>"

definition demo_env :: env where
  "demo_env =
     \<lparr>ERPNEXT_API_URL = Some ''http://erp.example/'',
      users_api = (\<lambda>email.
        Response 200 (JObj [(''data'', JObj [(''full_name'', JStr ''Alice Smith'')])])),
      room_api = (\<lambda>k invite.
        Response 200 (JObj [(''ocs'', JObj [(''data'', JObj [(''token'', JStr ''tok1'')])])])),
      chat_api = (\<lambda>token message. Response 201 JNull),
      room_token_not_null = False,
      room_token_affinity = text_affinity,
      repr_str = (\<lambda>s. [CHR 0x27] @ s @ [CHR 0x27])\<rparr>"

definition demo_items :: "(string \<times> json) list" where
  "demo_items =
     [(''allocated_to'', JStr ''a@x.com''), (''reference_type'', JStr ''Task''),
      (''reference_name'', JStr ''T-1''), (''assigned_by_full_name'', JStr ''Bob''),
      (''due_date'', JStr ''2024-01-01'')]"

definition demo_payload :: json where
  "demo_payload = JObj demo_items"

section \<open>Properties\<close>

subsection \<open>\<open>get_talk_username\<close>\<close>

lemma replace_nonempty_same: "replace_nonempty [c] [c] s = s"
proof (induction s)
  case Nil
  show ?case by (subst replace_nonempty.simps) simp
next
  case (Cons a s)
  show ?case
  proof (cases "a = c")
    case True
    have "replace_nonempty [c] [c] (a # s) = [c] @ replace_nonempty [c] [c] s"
      using True by (subst replace_nonempty.simps) simp
    with Cons True show ?thesis by simp
  next
    case False
    have "replace_nonempty [c] [c] (a # s) = a # replace_nonempty [c] [c] s"
      using False by (subst replace_nonempty.simps) simp
    with Cons show ?thesis by simp
  qed
qed

text \<open>
  C10. \<open>get_talk_username\<close> is the identity on strings: it replaces a space by a space,
  so the cache key is the display name itself.
\<close>

theorem get_talk_username_identity: "get_talk_username (JStr s) = Inr s"
  by (simp add: get_talk_username_def str_replace_def replace_nonempty_same)

subsection \<open>What a request leaves behind\<close>

lemma advances_refl: "advances st st"
  by (simp add: advances_def)

lemma advances_trans: "advances a b \<Longrightarrow> advances b c \<Longrightarrow> advances a c"
  by (auto simp: advances_def)

lemma advances_emit: "advances st (emit e st)"
  by (simp add: advances_def emit_def)

lemma cache_put_advances: "cache_put cfg u tok st = Inr st' \<Longrightarrow> advances st st'"
  by (auto simp: cache_put_def advances_def emit_def split: sum.splits if_splits)

lemma room_created_advances: "advances st (snd (room_created cfg u body st))"
  by (auto simp: room_created_def advances_refl split: sum.splits dest: cache_put_advances)

lemma create_loop_advances: "advances st (snd (create_loop cfg u retries backoff st))"
proof (induction cfg u retries backoff st rule: create_loop.induct)
  case (1 cfg u retries backoff st)
  show ?case
  proof (cases "retries < max_retries")
    case False
    then show ?thesis by (subst create_loop.simps) (simp add: advances_refl)
  next
    case True
    note lt = this
    show ?thesis
    proof (cases "room_api cfg retries u")
      case TransportError
      with lt show ?thesis
        by (subst create_loop.simps) (simp add: advances_emit)
    next
      case (Response code body)
      show ?thesis
      proof (cases "raises_for_status code \<and> code = 429")
        case True
        have "advances (emit (Sleep backoff) (emit (PostRoom u) st))
                (snd (create_loop cfg u (retries + 1) (backoff * 2)
                   (emit (Sleep backoff) (emit (PostRoom u) st))))"
          using "1.IH"[OF lt refl Response] True by blast
        then have "advances st (snd (create_loop cfg u (retries + 1) (backoff * 2)
                   (emit (Sleep backoff) (emit (PostRoom u) st))))"
          by (meson advances_emit advances_trans)
        with lt Response True show ?thesis
          by (subst create_loop.simps) (simp add: raises_for_status_def)
      next
        case False
        have "advances st (snd (room_created cfg u body (emit (PostRoom u) st)))"
          by (meson advances_emit advances_trans room_created_advances)
        with lt Response False show ?thesis
          by (subst create_loop.simps) (auto simp: Let_def advances_emit)
      qed
    qed
  qed
qed

lemma create_talk_conversation_advances:
  "advances st (snd (create_talk_conversation cfg u st))"
proof (cases "user_cache st u")
  case None
  have "advances st (snd (create_loop cfg u 0 1 (emit (SelectCache u) st)))"
    by (meson advances_emit advances_trans create_loop_advances)
  with None show ?thesis by (simp add: create_talk_conversation_def)
next
  case (Some tok)
  then show ?thesis by (simp add: create_talk_conversation_def advances_emit)
qed

subsection \<open>The retry loop\<close>

text \<open>
  C3. On a cache miss, when the room API answers every attempt with 429, the call makes
  exactly five POSTs, sleeps 1, 2, 4, 8 and 16 seconds (one sleep after each POST),
  changes nothing in the database and returns \<open>None\<close>.
\<close>

theorem backoff_on_429:
  assumes miss: "user_cache st u = None"
    and limited: "\<forall>k. \<exists>b. room_api cfg k u = Response 429 b"
  shows "create_talk_conversation cfg u st =
           (Inr JNull,
            st\<lparr>trace := trace st @
              [SelectCache u, PostRoom u, Sleep 1, PostRoom u, Sleep 2, PostRoom u, Sleep 4,
               PostRoom u, Sleep 8, PostRoom u, Sleep 16]\<rparr>)"
proof -
  have step: "create_loop cfg u k b s =
      create_loop cfg u k' b' (emit (Sleep b) (emit (PostRoom u) s))"
    if "k < 5" and "k' = k + 1" and "b' = b * 2" for k k' b b' s
  proof -
    obtain body where "room_api cfg k u = Response 429 body" using limited by blast
    with that show ?thesis
      by (subst create_loop.simps) (simp add: max_retries_def raises_for_status_def)
  qed
  have stop: "create_loop cfg u 5 b s = (Inr JNull, s)" for b s
    by (subst create_loop.simps) (simp add: max_retries_def)
  have s0: "create_loop cfg u 0 1 s =
      create_loop cfg u 1 2 (emit (Sleep 1) (emit (PostRoom u) s))" for s
    by (rule step) simp_all
  have s1: "create_loop cfg u 1 2 s =
      create_loop cfg u 2 4 (emit (Sleep 2) (emit (PostRoom u) s))" for s
    by (rule step) simp_all
  have s2: "create_loop cfg u 2 4 s =
      create_loop cfg u 3 8 (emit (Sleep 4) (emit (PostRoom u) s))" for s
    by (rule step) simp_all
  have s3: "create_loop cfg u 3 8 s =
      create_loop cfg u 4 16 (emit (Sleep 8) (emit (PostRoom u) s))" for s
    by (rule step) simp_all
  have s4: "create_loop cfg u 4 16 s =
      create_loop cfg u 5 32 (emit (Sleep 16) (emit (PostRoom u) s))" for s
    by (rule step) simp_all
  have "create_loop cfg u 0 1 s =
      (Inr JNull, emit (Sleep 16) (emit (PostRoom u) (emit (Sleep 8) (emit (PostRoom u)
        (emit (Sleep 4) (emit (PostRoom u) (emit (Sleep 2) (emit (PostRoom u)
        (emit (Sleep 1) (emit (PostRoom u) s))))))))))" for s
    unfolding s0 s1 s2 s3 s4 stop ..
  with miss show ?thesis
    by (simp add: create_talk_conversation_def emit_def)
qed


theorem backoff_on_429_witness:
  "user_cache empty_state ''Alice Smith'' = None
   \<and> (\<forall>k. \<exists>b. room_api (demo_env\<lparr>room_api := (\<lambda>k invite. Response 429 JNull)\<rparr>) k
                 ''Alice Smith'' = Response 429 b)
   \<and> create_talk_conversation (demo_env\<lparr>room_api := (\<lambda>k invite. Response 429 JNull)\<rparr>)
       ''Alice Smith'' empty_state =
       (Inr JNull,
        empty_state\<lparr>trace :=
          [SelectCache ''Alice Smith'', PostRoom ''Alice Smith'', Sleep 1,
           PostRoom ''Alice Smith'', Sleep 2, PostRoom ''Alice Smith'', Sleep 4,
           PostRoom ''Alice Smith'', Sleep 8, PostRoom ''Alice Smith'', Sleep 16]\<rparr>)"
  using backoff_on_429 [of empty_state "''Alice Smith''"
      "demo_env\<lparr>room_api := (\<lambda>k invite. Response 429 JNull)\<rparr>"]
  by (simp add: empty_state_def)

subsection \<open>The fingerprint does not depend on the order of keys\<close>

lemma key_reordered_truthy: "key_reordered a b \<Longrightarrow> truthy a = truthy b"
proof (induction rule: key_reordered.induct)
  case (same v)
  show ?case by simp
next
  case (arr xs ys)
  then show ?case by (auto dest: list_all2_lengthD)
next
  case (obj kvs kvs1 kvs')
  from obj(1) have "length kvs = length kvs1" by (rule list_all2_lengthD)
  moreover from obj(2) have "length kvs1 = length kvs'" by (rule mset_eq_length)
  ultimately show ?case by auto
qed

lemma dumps_items_sorted:
  assumes "mset xs = mset ys" and "distinct (map fst xs)"
  shows "sort_key fst xs = sort_key fst ys"
proof (rule sort_key_eq_sort_key)
  show "mset xs = mset ys" by fact
  from assms(2) show "inj_on fst (set xs)" by (simp add: distinct_map)
qed

lemma key_reordered_dumps:
  "key_reordered a b \<Longrightarrow> wf_json a \<Longrightarrow> json_dumps True a = json_dumps True b"
proof (induction rule: key_reordered.induct)
  case (same v)
  show ?case by simp
next
  case (arr xs ys)
  from arr(1) arr(2) have "map (json_dumps True) xs = map (json_dumps True) ys"
    by (induction xs ys rule: list_all2_induct) auto
  then show ?case by simp
next
  case (obj kvs kvs1 kvs')
  let ?item = "\<lambda>(k, v). (k, encode_str k @ '': '' @ json_dumps True v)"
  from obj(1) obj(3) have eq: "map ?item kvs = map ?item kvs1"
    by (induction kvs kvs1 rule: list_all2_induct) (auto simp: case_prod_beta)
  have fst_item: "map fst (map ?item kvs) = map fst kvs"
    by (simp add: case_prod_beta comp_def)
  have "map fst (map ?item kvs1) = map fst kvs"
    by (simp only: eq[symmetric] fst_item)
  with obj(3) have dist: "distinct (map fst (map ?item kvs1))"
    by simp
  have "mset (map ?item kvs1) = mset (map ?item kvs')"
    using obj(2) by (metis mset_map)
  with dist have "sort_key fst (map ?item kvs1) = sort_key fst (map ?item kvs')"
    by (rule dumps_items_sorted[rotated])
  with eq show ?case by (simp add: Let_def)
qed

subsection \<open>The pipeline\<close>

lemma fetch_user_details_state:
  "fetch_user_details cfg email st = (r, st') \<Longrightarrow> st' = emit (GetUser email) st"
  by (auto simp: fetch_user_details_def Let_def split: http_result.splits if_splits)

lemma send_talk_message_state:
  "send_talk_message cfg tok m st = (b, st') \<Longrightarrow> st' = emit (PostChat tok m) st"
  by (auto simp: send_talk_message_def Let_def split: http_result.splits)

lemma create_talk_conversation_state:
  "create_talk_conversation cfg u st = (r, st') \<Longrightarrow> advances st st'"
  using create_talk_conversation_advances[of st cfg u] by simp

lemma notify_advances:
  "advances st (snd (notify cfg a rt rn ab dd url st))"
proof (cases "truthy a")
  case False
  then show ?thesis by (simp add: notify_def advances_refl)
next
  case True
  obtain r1 st1 where f: "fetch_user_details cfg a st = (r1, st1)" by fastforce
  then have st1: "advances st st1"
    by (auto dest!: fetch_user_details_state simp: advances_emit)
  show ?thesis
  proof (cases r1)
    case (Inl e)
    with True f st1 show ?thesis by (simp add: notify_def)
  next
    case (Inr user_details)
    note r1 = this
    show ?thesis
    proof (cases "truthy user_details \<and> (\<exists>fn. py_get user_details ''full_name'' = Inr fn
              \<and> truthy fn \<and> (\<exists>u. get_talk_username fn = Inr u))")
      case False
      with True f r1 st1 show ?thesis
        by (auto simp: notify_def split: sum.splits)
    next
      case True
      then obtain fn u where fn: "truthy user_details" "py_get user_details ''full_name'' = Inr fn"
        "truthy fn" "get_talk_username fn = Inr u" by blast
      let ?m = "notification_message (repr_str cfg) (py_str (repr_str cfg) fn) dd rt rn url ab"
      obtain r2 st2 where c: "create_talk_conversation cfg u st1 = (r2, st2)" by fastforce
      then have st2: "advances st st2"
        using st1 by (blast intro: advances_trans dest: create_talk_conversation_state)
      obtain b st3 where s: "send_talk_message cfg (projr r2) ?m st2 = (b, st3)" by fastforce
      then have st3: "advances st st3"
        using st2 by (auto dest!: send_talk_message_state intro: advances_trans advances_emit)
      from \<open>truthy a\<close> f r1 fn c s st2 st3 show ?thesis
        by (cases r2) (auto simp: notify_def Let_def)
    qed
  qed
qed

lemma process_payload_duplicate:
  "json_dumps True d \<in> set (processed_webhooks st) \<Longrightarrow>
   process_payload cfg d st =
     (Inr (MessageBody ''Webhook already processed'', 200),
      emit (SelectProcessed (json_dumps True d)) st)"
  by (simp add: process_payload_def Let_def)

lemma process_payload_fresh:
  assumes "json_dumps True d \<notin> set (processed_webhooks st)"
  shows "advances
           ((emit (InsertProcessed (json_dumps True d)) (emit (SelectProcessed (json_dumps True d)) st))
              \<lparr>processed_webhooks := processed_webhooks st @ [json_dumps True d]\<rparr>)
           (snd (process_payload cfg d st))"
  using assms
  by (auto simp: process_payload_def Let_def advances_refl notify_advances split: sum.splits)

lemma process_payload_marks:
  "json_dumps True d \<in> set (processed_webhooks (snd (process_payload cfg d st)))"
proof (cases "json_dumps True d \<in> set (processed_webhooks st)")
  case True
  then show ?thesis by (simp add: process_payload_duplicate emit_def)
next
  case False
  from process_payload_fresh[OF this, of cfg] show ?thesis
    by (simp add: advances_def emit_def)
qed

lemma webhook_listener_parsed:
  "parsed_payload req = Some d \<Longrightarrow> webhook_listener cfg req st = handle_data cfg (Some d) st"
  by (cases req) (auto simp: webhook_listener_def split: option.splits)

lemma webhook_listener_truthy:
  "parsed_payload req = Some d \<Longrightarrow> truthy d \<Longrightarrow>
   webhook_listener cfg req st = process_payload cfg d st"
  by (simp add: webhook_listener_parsed handle_data_def)

text \<open>
  C6 (as amended). For every request whose payload is truthy and not a duplicate, the
  first two things the request does are the duplicate check and the insert of the
  fingerprint with its commit: every other event of the request, so every outbound call,
  comes after them, and the fingerprint is in the table when the request ends. A payload
  that parses to a falsy value (\<open>{}\<close>, \<open>[]\<close>, \<open>0\<close>, ...) is rejected by \<open>if data:\<close> before it
  is fingerprinted.
\<close>

theorem fingerprint_committed_first:
  assumes "parsed_payload req = Some d" and "truthy d"
    and "json_dumps True d \<notin> set (processed_webhooks st)"
  shows "\<exists>rest.
           trace (snd (webhook_listener cfg req st)) =
             trace st @ [SelectProcessed (json_dumps True d), InsertProcessed (json_dumps True d)]
               @ rest
           \<and> processed_webhooks (snd (webhook_listener cfg req st)) =
               processed_webhooks st @ [json_dumps True d]"
  using process_payload_fresh[OF assms(3), of cfg] assms(1,2)
  by (auto simp: webhook_listener_truthy advances_def emit_def)

theorem fingerprint_committed_first_witness:
  "parsed_payload (JsonRequest (Some demo_payload)) = Some demo_payload
   \<and> truthy demo_payload
   \<and> json_dumps True demo_payload \<notin> set (processed_webhooks empty_state)
   \<and> (\<exists>rest.
         trace (snd (webhook_listener demo_env (JsonRequest (Some demo_payload)) empty_state)) =
           trace empty_state
             @ [SelectProcessed (json_dumps True demo_payload),
                InsertProcessed (json_dumps True demo_payload)] @ rest
         \<and> processed_webhooks
             (snd (webhook_listener demo_env (JsonRequest (Some demo_payload)) empty_state)) =
             processed_webhooks empty_state @ [json_dumps True demo_payload])"
proof -
  have h1: "parsed_payload (JsonRequest (Some demo_payload)) = Some demo_payload" by simp
  have h2: "truthy demo_payload" by (simp add: demo_payload_def demo_items_def)
  have h3: "json_dumps True demo_payload \<notin> set (processed_webhooks empty_state)"
    by (simp add: empty_state_def)
  show ?thesis
    using h1 h2 h3 fingerprint_committed_first[OF h1 h2 h3, of demo_env] by blast
qed

theorem fingerprint_not_committed_counterexample:
  "parsed_payload (JsonRequest (Some (JObj []))) = Some (JObj [])
   \<and> json_dumps True (JObj []) \<notin> set (processed_webhooks empty_state)
   \<and> webhook_listener demo_env (JsonRequest (Some (JObj []))) empty_state =
       (Inr (ErrorBody ''No usable data received'', 400), empty_state)
   \<and> json_dumps True (JObj []) \<notin> set (processed_webhooks
        (snd (webhook_listener demo_env (JsonRequest (Some (JObj []))) empty_state)))"
  by (simp add: webhook_listener_def handle_data_def empty_state_def)

text \<open>
  C4 (as amended). After a request with a truthy payload, whatever that request ended
  in, a second request with the same payload, or with that payload's keys reordered at
  any depth, is answered 200 \<open>Webhook already processed\<close>; all it does is the duplicate
  check. A falsy payload is answered 400 both times.
\<close>

theorem resubmission_is_ignored:
  assumes "parsed_payload req = Some d" and "truthy d" and "wf_json d"
    and "parsed_payload req' = Some d'" and "key_reordered d d'"
    and "webhook_listener cfg req st = (r, st1)"
  shows "webhook_listener cfg' req' st1 =
           (Inr (MessageBody ''Webhook already processed'', 200),
            emit (SelectProcessed (json_dumps True d)) st1)"
proof -
  have same: "json_dumps True d' = json_dumps True d"
    using assms(3,5) by (simp add: key_reordered_dumps)
  have "truthy d'" using assms(2,5) by (simp add: key_reordered_truthy)
  then have run: "webhook_listener cfg' req' st1 = process_payload cfg' d' st1"
    using assms(4) by (simp add: webhook_listener_truthy)
  have "st1 = snd (process_payload cfg d st)"
    using assms(1,2,6) by (simp add: webhook_listener_truthy)
  then have "json_dumps True d' \<in> set (processed_webhooks st1)"
    using process_payload_marks[of d cfg st] same by simp
  then show ?thesis
    unfolding run using same by (simp add: process_payload_duplicate)
qed

theorem resubmission_is_ignored_witness:
  "parsed_payload (JsonRequest (Some (JObj demo_items))) = Some (JObj demo_items)
   \<and> truthy (JObj demo_items) \<and> wf_json (JObj demo_items)
   \<and> parsed_payload (FormRequest [None, Some (JObj (rev demo_items))]) =
       Some (JObj (rev demo_items))
   \<and> key_reordered (JObj demo_items) (JObj (rev demo_items))
   \<and> webhook_listener (demo_env\<lparr>chat_api := (\<lambda>t m. TransportError)\<rparr>)
       (FormRequest [None, Some (JObj (rev demo_items))])
       (snd (webhook_listener demo_env (JsonRequest (Some (JObj demo_items))) empty_state)) =
       (Inr (MessageBody ''Webhook already processed'', 200),
        emit (SelectProcessed (json_dumps True (JObj demo_items)))
          (snd (webhook_listener demo_env (JsonRequest (Some (JObj demo_items))) empty_state)))"
proof -
  have h1: "parsed_payload (JsonRequest (Some (JObj demo_items))) = Some (JObj demo_items)"
    by simp
  have h2: "truthy (JObj demo_items)" by (simp add: demo_items_def)
  have h3: "wf_json (JObj demo_items)" by (simp add: demo_items_def)
  have h4: "parsed_payload (FormRequest [None, Some (JObj (rev demo_items))]) =
       Some (JObj (rev demo_items))" by simp
  have "list_all2 (\<lambda>p q. fst p = fst q \<and> key_reordered (snd p) (snd q)) demo_items demo_items"
    by (simp add: list_all2_same key_reordered.same)
  then have h5: "key_reordered (JObj demo_items) (JObj (rev demo_items))"
    by (rule key_reordered.obj) simp
  have h6: "webhook_listener demo_env (JsonRequest (Some (JObj demo_items))) empty_state =
      (fst (webhook_listener demo_env (JsonRequest (Some (JObj demo_items))) empty_state),
       snd (webhook_listener demo_env (JsonRequest (Some (JObj demo_items))) empty_state))"
    by simp
  show ?thesis
    using h1 h2 h3 h4 h5
      resubmission_is_ignored[OF h1 h2 h3 h4 h5 h6,
        of "demo_env\<lparr>chat_api := (\<lambda>t m. TransportError)\<rparr>"]
    by blast
qed

theorem resubmission_counterexample:
  "webhook_listener demo_env (JsonRequest (Some (JObj []))) empty_state =
     (Inr (ErrorBody ''No usable data received'', 400), empty_state)
   \<and> webhook_listener demo_env (JsonRequest (Some (JObj [])))
       (snd (webhook_listener demo_env (JsonRequest (Some (JObj []))) empty_state)) =
     (Inr (ErrorBody ''No usable data received'', 400), empty_state)
   \<and> fst (webhook_listener demo_env (JsonRequest (Some (JObj [])))
         (snd (webhook_listener demo_env (JsonRequest (Some (JObj []))) empty_state))) \<noteq>
     Inr (MessageBody ''Webhook already processed'', 200)"
  by (simp add: webhook_listener_def handle_data_def)

text \<open>
  C9 (as amended). A request goes on to the fingerprint and the duplicate check exactly
  when the first payload that parses is truthy. A payload that parses to a falsy value
  is answered 400 \<open>No usable data received\<close>, as is a form none of whose keys parses; in
  both cases, and when there is no payload at all, nothing is read or written.
\<close>

theorem parse_stage:
  "(case parsed_payload req of
      Some d \<Rightarrow>
        if truthy d then
          webhook_listener cfg req st = process_payload cfg d st
          \<and> (\<exists>rest. trace (snd (webhook_listener cfg req st)) =
                       trace st @ SelectProcessed (json_dumps True d) # rest)
        else webhook_listener cfg req st = (Inr (ErrorBody ''No usable data received'', 400), st)
    | None \<Rightarrow>
        snd (webhook_listener cfg req st) = st
        \<and> fst (webhook_listener cfg req st) \<in>
            {Inl BadRequest, Inr (ErrorBody ''No usable data received'', 400),
             Inr (ErrorBody ''No data or unsupported data format'', 400)})"
proof (cases "parsed_payload req")
  case None
  then show ?thesis
    by (cases req) (auto simp: webhook_listener_def handle_data_def split: option.splits)
next
  case (Some d)
  show ?thesis
  proof (cases "truthy d")
    case False
    with Some show ?thesis by (simp add: webhook_listener_parsed handle_data_def)
  next
    case True
    have "\<exists>rest. trace (snd (process_payload cfg d st)) =
            trace st @ SelectProcessed (json_dumps True d) # rest"
    proof (cases "json_dumps True d \<in> set (processed_webhooks st)")
      case True
      then show ?thesis by (simp add: process_payload_duplicate emit_def)
    next
      case False
      from process_payload_fresh[OF this, of cfg] show ?thesis
        by (auto simp: advances_def emit_def)
    qed
    with Some True show ?thesis by (simp add: webhook_listener_truthy)
  qed
qed

theorem parse_stage_counterexample:
  "parsed_payload (JsonRequest (Some (JObj []))) = Some (JObj [])
   \<and> parsed_payload (FormRequest [None, Some (JInt 0), Some demo_payload]) = Some (JInt 0)
   \<and> webhook_listener demo_env (JsonRequest (Some (JObj []))) empty_state =
       (Inr (ErrorBody ''No usable data received'', 400), empty_state)
   \<and> webhook_listener demo_env (FormRequest [None, Some (JInt 0), Some demo_payload])
       empty_state =
       (Inr (ErrorBody ''No usable data received'', 400), empty_state)"
  by (simp add: webhook_listener_def handle_data_def)

text \<open>
  C2 (as amended). A dict payload that is not empty, not a duplicate, has no
  \<open>allocated_to\<close> and has a string \<open>reference_type\<close> is answered 400 with the
  \<open>Missing 'allocated_to'\<close> body (given that \<open>ERPNEXT_API_URL\<close> is set), after its
  fingerprint was committed and without any outbound call.
\<close>

theorem missing_allocated_to_response:
  assumes "parsed_payload req = Some (JObj kvs)" and "kvs \<noteq> []"
    and "json_dumps True (JObj kvs) \<notin> set (processed_webhooks st)"
    and "map_of kvs ''allocated_to'' = None"
    and "map_of kvs ''reference_type'' = Some (JStr t)"
    and "ERPNEXT_API_URL cfg = Some url"
  shows "webhook_listener cfg req st =
           (Inr (ErrorBody missing_allocated_to, 400),
            st\<lparr>processed_webhooks := processed_webhooks st @ [json_dumps True (JObj kvs)],
               trace := trace st @ [SelectProcessed (json_dumps True (JObj kvs)),
                                    InsertProcessed (json_dumps True (JObj kvs))]\<rparr>)"
proof -
  have "webhook_listener cfg req st = process_payload cfg (JObj kvs) st"
    using assms(1,2) by (simp add: webhook_listener_truthy)
  also have "\<dots> = (Inr (ErrorBody missing_allocated_to, 400),
            st\<lparr>processed_webhooks := processed_webhooks st @ [json_dumps True (JObj kvs)],
               trace := trace st @ [SelectProcessed (json_dumps True (JObj kvs)),
                                    InsertProcessed (json_dumps True (JObj kvs))]\<rparr>)"
    using assms(3-6)
    by (simp add: process_payload_def Let_def py_get_def erpnext_doc_url_def notify_def emit_def
             split: option.splits)
  finally show ?thesis .
qed


theorem missing_allocated_to_response_witness:
  "parsed_payload (JsonRequest (Some (JObj [(''reference_type'', JStr ''Task'')]))) =
     Some (JObj [(''reference_type'', JStr ''Task'')])
   \<and> [(''reference_type'', JStr ''Task'')] \<noteq> []
   \<and> json_dumps True (JObj [(''reference_type'', JStr ''Task'')])
       \<notin> set (processed_webhooks empty_state)
   \<and> map_of [(''reference_type'', JStr ''Task'')] ''allocated_to'' = None
   \<and> map_of [(''reference_type'', JStr ''Task'')] ''reference_type'' = Some (JStr ''Task'')
   \<and> ERPNEXT_API_URL demo_env = Some ''http://erp.example/''
   \<and> webhook_listener demo_env (JsonRequest (Some (JObj [(''reference_type'', JStr ''Task'')])))
       empty_state =
       (Inr (ErrorBody missing_allocated_to, 400),
        empty_state\<lparr>processed_webhooks := processed_webhooks empty_state
              @ [json_dumps True (JObj [(''reference_type'', JStr ''Task'')])],
           trace := trace empty_state
              @ [SelectProcessed (json_dumps True (JObj [(''reference_type'', JStr ''Task'')])),
                 InsertProcessed (json_dumps True (JObj [(''reference_type'', JStr ''Task'')]))]\<rparr>)"
proof -
  let ?kvs = "[(''reference_type'', JStr ''Task'')]"
  have h1: "parsed_payload (JsonRequest (Some (JObj ?kvs))) = Some (JObj ?kvs)" by simp
  have h2: "?kvs \<noteq> []" by simp
  have h3: "json_dumps True (JObj ?kvs) \<notin> set (processed_webhooks empty_state)"
    by (simp add: empty_state_def)
  have h4: "map_of ?kvs ''allocated_to'' = None" by simp
  have h5: "map_of ?kvs ''reference_type'' = Some (JStr ''Task'')" by simp
  have h6: "ERPNEXT_API_URL demo_env = Some ''http://erp.example/''" by (simp add: demo_env_def)
  show ?thesis
    using h1 h2 h3 h4 h5 h6 missing_allocated_to_response[OF h1 h2 h3 h4 h5 h6] by blast
qed

theorem missing_allocated_to_counterexample:
  "parsed_payload (JsonRequest (Some (JObj []))) = Some (JObj [])
   \<and> map_of ([] :: (string \<times> json) list) ''allocated_to'' = None
   \<and> json_dumps True (JObj []) \<notin> set (processed_webhooks empty_state)
   \<and> fst (webhook_listener demo_env (JsonRequest (Some (JObj []))) empty_state) =
       Inr (ErrorBody ''No usable data received'', 400)
   \<and> fst (webhook_listener demo_env (JsonRequest (Some (JObj []))) empty_state) \<noteq>
       Inr (ErrorBody missing_allocated_to, 400)"
  by (simp add: webhook_listener_def handle_data_def empty_state_def missing_allocated_to_def)


subsection \<open>The conversation cache\<close>

lemma create_loop_first_attempt:
  assumes "room_api cfg 0 u = Response code body" and "code \<noteq> 429"
  shows "create_loop cfg u 0 b st =
           (if raises_for_status code then (Inr JNull, emit (PostRoom u) st)
            else room_created cfg u body (emit (PostRoom u) st))"
  using assms by (subst create_loop.simps) (simp add: max_retries_def)

lemma room_created_handle:
  assumes "room_created cfg u body st = (Inr tok, st')" and "truthy tok"
  shows "\<exists>v. sqlite_value tok = Inr v
           \<and> st' = (emit (InsertCache u v) st)
                      \<lparr>user_cache := (user_cache st)(u \<mapsto> room_token_affinity cfg v)\<rparr>"
  using assms
  by (auto simp: room_created_def cache_put_def split: sum.splits if_splits)

text \<open>
  C5 (as amended). A recipient found in the cache gets the cached token back after the
  cache read alone, with no POST. For a recipient not in the cache, when the first call
  obtains a truthy token at its first attempt, the first call does one cache read, one
  POST and one cache write, and a second call does one cache read and returns the
  token as the table holds it: one POST and two cache reads in all.
\<close>

theorem cache_hit_and_second_call:
  "(user_cache st u = Some tok \<longrightarrow>
      create_talk_conversation cfg u st = (Inr tok, emit (SelectCache u) st))
   \<and> (user_cache st u = None \<and> room_api cfg 0 u = Response code body \<and> code \<noteq> 429
        \<and> create_talk_conversation cfg u st = (Inr tok, st1) \<and> truthy tok \<longrightarrow>
      (\<exists>v. sqlite_value tok = Inr v
         \<and> trace st1 = trace st @ [SelectCache u, PostRoom u, InsertCache u v]
         \<and> create_talk_conversation cfg' u st1 =
             (Inr (room_token_affinity cfg v), emit (SelectCache u) st1)
         \<and> trace (snd (create_talk_conversation cfg' u st1)) =
             trace st @ [SelectCache u, PostRoom u, InsertCache u v, SelectCache u]))"
proof (intro conjI impI)
  assume "user_cache st u = Some tok"
  then show "create_talk_conversation cfg u st = (Inr tok, emit (SelectCache u) st)"
    by (simp add: create_talk_conversation_def)
next
  assume a: "user_cache st u = None \<and> room_api cfg 0 u = Response code body \<and> code \<noteq> 429
        \<and> create_talk_conversation cfg u st = (Inr tok, st1) \<and> truthy tok"
  let ?s = "emit (PostRoom u) (emit (SelectCache u) st)"
  from a have miss: "user_cache st u = None"
    and api: "room_api cfg 0 u = Response code body" "code \<noteq> 429"
    and first: "create_talk_conversation cfg u st = (Inr tok, st1)"
    and tok: "truthy tok"
    by blast+
  from first miss have run: "create_loop cfg u 0 1 (emit (SelectCache u) st) = (Inr tok, st1)"
    by (simp add: create_talk_conversation_def Let_def)
  have "create_loop cfg u 0 1 (emit (SelectCache u) st) =
      (if raises_for_status code then (Inr JNull, ?s) else room_created cfg u body ?s)"
    using api by (rule create_loop_first_attempt)
  with run tok have "room_created cfg u body ?s = (Inr tok, st1)"
    by (auto split: if_splits)
  with tok obtain v where v: "sqlite_value tok = Inr v"
      "st1 = (emit (InsertCache u v) ?s)
               \<lparr>user_cache := (user_cache ?s)(u \<mapsto> room_token_affinity cfg v)\<rparr>"
    using room_created_handle by blast
  from v(2) have t1: "trace st1 = trace st @ [SelectCache u, PostRoom u, InsertCache u v]"
    by (simp add: emit_def)
  from v(2) have "user_cache st1 u = Some (room_token_affinity cfg v)" by simp
  then have second: "create_talk_conversation cfg' u st1 =
      (Inr (room_token_affinity cfg v), emit (SelectCache u) st1)"
    by (simp add: create_talk_conversation_def)
  from second t1 have "trace (snd (create_talk_conversation cfg' u st1)) =
      trace st @ [SelectCache u, PostRoom u, InsertCache u v, SelectCache u]"
    by (simp add: emit_def)
  with v(1) t1 second show "\<exists>v. sqlite_value tok = Inr v
         \<and> trace st1 = trace st @ [SelectCache u, PostRoom u, InsertCache u v]
         \<and> create_talk_conversation cfg' u st1 =
             (Inr (room_token_affinity cfg v), emit (SelectCache u) st1)
         \<and> trace (snd (create_talk_conversation cfg' u st1)) =
             trace st @ [SelectCache u, PostRoom u, InsertCache u v, SelectCache u]"
    by blast
qed

lemma demo_create:
  "create_talk_conversation demo_env ''Alice Smith'' empty_state =
     (Inr (JStr ''tok1''),
      \<lparr>processed_webhooks = [],
       user_cache = [''Alice Smith'' \<mapsto> JStr ''tok1''],
       trace = [SelectCache ''Alice Smith'', PostRoom ''Alice Smith'',
                InsertCache ''Alice Smith'' (JStr ''tok1'')]\<rparr>)"
  by (simp add: create_talk_conversation_def create_loop_first_attempt demo_env_def
        empty_state_def raises_for_status_def room_created_def py_get_def cache_put_def emit_def)

theorem cache_hit_and_second_call_witness:
  "user_cache (snd (create_talk_conversation demo_env ''Alice Smith'' empty_state))
       ''Alice Smith'' = Some (JStr ''tok1'')
   \<and> create_talk_conversation demo_env ''Alice Smith''
       (snd (create_talk_conversation demo_env ''Alice Smith'' empty_state)) =
       (Inr (JStr ''tok1''),
        emit (SelectCache ''Alice Smith'')
          (snd (create_talk_conversation demo_env ''Alice Smith'' empty_state)))
   \<and> user_cache empty_state ''Alice Smith'' = None
   \<and> room_api demo_env 0 ''Alice Smith'' =
       Response 200 (JObj [(''ocs'', JObj [(''data'', JObj [(''token'', JStr ''tok1'')])])])
   \<and> (200::nat) \<noteq> 429
   \<and> truthy (JStr ''tok1'')
   \<and> (\<exists>v. sqlite_value (JStr ''tok1'') = Inr v
        \<and> trace (snd (create_talk_conversation demo_env ''Alice Smith'' empty_state)) =
            trace empty_state
              @ [SelectCache ''Alice Smith'', PostRoom ''Alice Smith'',
                 InsertCache ''Alice Smith'' v]
        \<and> create_talk_conversation (demo_env\<lparr>room_api := (\<lambda>k invite. TransportError)\<rparr>)
            ''Alice Smith'' (snd (create_talk_conversation demo_env ''Alice Smith'' empty_state)) =
            (Inr (room_token_affinity demo_env v), emit (SelectCache ''Alice Smith'')
               (snd (create_talk_conversation demo_env ''Alice Smith'' empty_state)))
        \<and> trace (snd (create_talk_conversation
              (demo_env\<lparr>room_api := (\<lambda>k invite. TransportError)\<rparr>) ''Alice Smith''
              (snd (create_talk_conversation demo_env ''Alice Smith'' empty_state)))) =
            trace empty_state
              @ [SelectCache ''Alice Smith'', PostRoom ''Alice Smith'',
                 InsertCache ''Alice Smith'' v, SelectCache ''Alice Smith''])"
proof -
  let ?st1 = "snd (create_talk_conversation demo_env ''Alice Smith'' empty_state)"
  let ?body = "JObj [(''ocs'', JObj [(''data'', JObj [(''token'', JStr ''tok1'')])])]"
  let ?down = "demo_env\<lparr>room_api := (\<lambda>k invite. TransportError)\<rparr>"
  have h0: "user_cache ?st1 ''Alice Smith'' = Some (JStr ''tok1'')"
    by (simp add: demo_create)
  have h1: "user_cache empty_state ''Alice Smith'' = None" by (simp add: empty_state_def)
  have h2: "room_api demo_env 0 ''Alice Smith'' = Response 200 ?body"
    by (simp add: demo_env_def)
  have h3: "(200::nat) \<noteq> 429" by simp
  have h4: "create_talk_conversation demo_env ''Alice Smith'' empty_state =
      (Inr (JStr ''tok1''), ?st1)" by (simp add: demo_create)
  have h5: "truthy (JStr ''tok1'')" by simp
  from cache_hit_and_second_call[of ?st1 "''Alice Smith''" "JStr ''tok1''" demo_env] h0
  have c1: "create_talk_conversation demo_env ''Alice Smith'' ?st1 =
       (Inr (JStr ''tok1''), emit (SelectCache ''Alice Smith'') ?st1)"
    by blast
  from cache_hit_and_second_call[of empty_state "''Alice Smith''" "JStr ''tok1''" demo_env
      200 ?body ?st1 ?down] h1 h2 h3 h4 h5
  have c2: "\<exists>v. sqlite_value (JStr ''tok1'') = Inr v
        \<and> trace ?st1 = trace empty_state
              @ [SelectCache ''Alice Smith'', PostRoom ''Alice Smith'',
                 InsertCache ''Alice Smith'' v]
        \<and> create_talk_conversation ?down ''Alice Smith'' ?st1 =
            (Inr (room_token_affinity demo_env v), emit (SelectCache ''Alice Smith'') ?st1)
        \<and> trace (snd (create_talk_conversation ?down ''Alice Smith'' ?st1)) =
            trace empty_state
              @ [SelectCache ''Alice Smith'', PostRoom ''Alice Smith'',
                 InsertCache ''Alice Smith'' v, SelectCache ''Alice Smith'']"
    by blast
  from h0 c1 h1 h2 h3 h5 c2 show ?thesis by blast
qed

theorem second_call_counterexample:
  "user_cache empty_state ''Alice Smith'' = None
   \<and> trace (snd (create_talk_conversation
        (demo_env\<lparr>room_api := (\<lambda>k invite. Response 500 JNull)\<rparr>) ''Alice Smith''
        (snd (create_talk_conversation
           (demo_env\<lparr>room_api := (\<lambda>k invite. Response 500 JNull)\<rparr>) ''Alice Smith''
           empty_state)))) =
       [SelectCache ''Alice Smith'', PostRoom ''Alice Smith'',
        SelectCache ''Alice Smith'', PostRoom ''Alice Smith'']
   \<and> count_list (trace (snd (create_talk_conversation
        (demo_env\<lparr>room_api := (\<lambda>k invite. Response 500 JNull)\<rparr>) ''Alice Smith''
        (snd (create_talk_conversation
           (demo_env\<lparr>room_api := (\<lambda>k invite. Response 500 JNull)\<rparr>) ''Alice Smith''
           empty_state))))) (PostRoom ''Alice Smith'') = 2"
  by (simp add: create_talk_conversation_def create_loop_first_attempt empty_state_def
        raises_for_status_def emit_def)

text \<open>
  C7 (the code differs). The room API answers 200 with a \<open>data\<close> object that has no
  \<open>token\<close>. Where the column may be null, the code stores \<open>None\<close> for the
  recipient and returns \<open>None\<close>; where it may not, the insert raises and the call does
  not return.
\<close>

theorem missing_token_is_cached:
  "create_talk_conversation
     (demo_env\<lparr>room_api := (\<lambda>k invite.
        Response 200 (JObj [(''ocs'', JObj [(''data'', JObj [(''id'', JInt 7)])])]))\<rparr>)
     ''Alice Smith'' empty_state =
     (Inr JNull,
      \<lparr>processed_webhooks = [],
       user_cache = [''Alice Smith'' \<mapsto> JNull],
       trace = [SelectCache ''Alice Smith'', PostRoom ''Alice Smith'',
                InsertCache ''Alice Smith'' JNull]\<rparr>)
   \<and> create_talk_conversation
       (demo_env\<lparr>room_api := (\<lambda>k invite.
          Response 200 (JObj [(''ocs'', JObj [(''data'', JObj [(''id'', JInt 7)])])])),
          room_token_not_null := True\<rparr>)
       ''Alice Smith'' empty_state =
       (Inl IntegrityError,
        \<lparr>processed_webhooks = [], user_cache = Map.empty,
         trace = [SelectCache ''Alice Smith'', PostRoom ''Alice Smith'']\<rparr>)"
  by (simp add: create_talk_conversation_def create_loop_first_attempt demo_env_def
        empty_state_def raises_for_status_def room_created_def py_get_def cache_put_def emit_def)

subsection \<open>The response does not depend on the chat API\<close>

lemma cache_put_chat_api: "cache_put (cfg\<lparr>chat_api := f\<rparr>) = cache_put cfg"
  by (auto simp: cache_put_def fun_eq_iff split: sum.splits)

lemma room_created_chat_api: "room_created (cfg\<lparr>chat_api := f\<rparr>) = room_created cfg"
  unfolding room_created_def cache_put_chat_api ..

lemma create_loop_chat_api:
  "create_loop (cfg\<lparr>chat_api := f\<rparr>) u k b st = create_loop cfg u k b st"
proof (induction cfg u k b st rule: create_loop.induct)
  case (1 cfg u retries backoff st)
  show ?case
  proof (cases "retries < max_retries")
    case False
    then show ?thesis
      by (subst create_loop.simps, subst (2) create_loop.simps) simp
  next
    case True
    show ?thesis
    proof (cases "room_api cfg retries u")
      case TransportError
      with True show ?thesis
        by (subst create_loop.simps, subst (2) create_loop.simps) simp
    next
      case (Response code body)
      show ?thesis
      proof (cases "raises_for_status code \<and> code = 429")
        case False
        with True Response show ?thesis
          by (subst create_loop.simps, subst (2) create_loop.simps)
             (auto simp: Let_def room_created_chat_api)
      next
        case t: True
        with "1.IH"[OF True refl Response] True Response show ?thesis
          by (subst create_loop.simps, subst (2) create_loop.simps) (simp add: Let_def)
      qed
    qed
  qed
qed

lemma response_ignores_chat_api:
  "fst (webhook_listener (cfg\<lparr>chat_api := f\<rparr>) req st) = fst (webhook_listener cfg req st)"
proof -
  have create: "create_talk_conversation (cfg\<lparr>chat_api := f\<rparr>) u s =
      create_talk_conversation cfg u s" for u s
    unfolding create_talk_conversation_def create_loop_chat_api ..
  have fetch: "fetch_user_details (cfg\<lparr>chat_api := f\<rparr>) e s = fetch_user_details cfg e s"
    for e s
    by (simp add: fetch_user_details_def)
  have notify: "fst (notify (cfg\<lparr>chat_api := f\<rparr>) a rt rn ab dd url s) =
      fst (notify cfg a rt rn ab dd url s)" for a rt rn ab dd url s
    by (auto simp: notify_def create fetch Let_def split: prod.splits sum.splits)
  have url: "erpnext_doc_url (cfg\<lparr>chat_api := f\<rparr>) rt rn = erpnext_doc_url cfg rt rn"
    for rt rn
    by (simp add: erpnext_doc_url_def split: option.splits json.splits)
  have "fst (process_payload (cfg\<lparr>chat_api := f\<rparr>) d s) = fst (process_payload cfg d s)"
    for d s
    by (auto simp: process_payload_def Let_def url notify split: sum.splits)
  then show ?thesis
    by (auto simp: webhook_listener_def handle_data_def split: request.splits option.splits)
qed

text \<open>
  C1 (the code differs). In the scenario of the specification, with a chat API that
  answers 500: \<open>send_talk_message\<close> returns \<open>False\<close>, and the response is 200
  \<open>Notification sent to Nextcloud Talk\<close>.
\<close>

theorem send_failure_reported_as_success:
  "fst (send_talk_message (demo_env\<lparr>chat_api := (\<lambda>token message. Response 500 JNull)\<rparr>)
         token message st) = False
   \<and> fst (webhook_listener (demo_env\<lparr>chat_api := (\<lambda>token message. Response 500 JNull)\<rparr>)
            (JsonRequest (Some demo_payload)) empty_state) =
       Inr (MessageBody ''Notification sent to Nextcloud Talk'', 200)"
proof -
  have "fst (webhook_listener demo_env (JsonRequest (Some demo_payload)) empty_state) =
       Inr (MessageBody ''Notification sent to Nextcloud Talk'', 200)"
    by (simp add: webhook_listener_def handle_data_def process_payload_def notify_def
          demo_payload_def demo_items_def demo_env_def empty_state_def py_get_def
          erpnext_doc_url_def fetch_user_details_def raises_for_status_def
          get_talk_username_def create_talk_conversation_def create_loop_first_attempt
          room_created_def cache_put_def send_talk_message_def Let_def emit_def
          split: prod.splits)
  then show ?thesis
    by (simp add: response_ignores_chat_api send_talk_message_def raises_for_status_def)
qed

subsection \<open>A directory that fails\<close>

text \<open>
  C8 (the code differs). The payload \<open>{"allocated_to": "a@x.com"}\<close>, with a directory
  that answers 404: line 230 raises \<open>AttributeError\<close> on the missing \<open>reference_type\<close>
  after the fingerprint was committed; the directory is not called.
\<close>

theorem fetch_failure_without_reference_type:
  "webhook_listener (demo_env\<lparr>users_api := (\<lambda>email. Response 404 JNull)\<rparr>)
     (JsonRequest (Some (JObj [(''allocated_to'', JStr ''a@x.com'')]))) empty_state =
     (Inl AttributeError,
      \<lparr>processed_webhooks = [json_dumps True (JObj [(''allocated_to'', JStr ''a@x.com'')])],
       user_cache = Map.empty,
       trace = [SelectProcessed (json_dumps True (JObj [(''allocated_to'', JStr ''a@x.com'')])),
                InsertProcessed (json_dumps True (JObj [(''allocated_to'', JStr ''a@x.com'')]))]\<rparr>)"
  by (simp add: webhook_listener_def handle_data_def process_payload_def py_get_def
        erpnext_doc_url_def demo_env_def empty_state_def emit_def Let_def)

text \<open>
  With a string \<open>reference_type\<close> the directory is called once and its failure is
  answered 500 with the body that names the email.
\<close>

lemma fetch_failure_response:
  assumes "parsed_payload req = Some (JObj kvs)"
    and "json_dumps True (JObj kvs) \<notin> set (processed_webhooks st)"
    and "map_of kvs ''allocated_to'' = Some (JStr email)" and "email \<noteq> []"
    and "map_of kvs ''reference_type'' = Some (JStr t)"
    and "ERPNEXT_API_URL cfg = Some url"
    and "request_failed (users_api cfg (JStr email))"
  shows "webhook_listener cfg req st =
           (Inr (ErrorBody (''Could not fetch user details for '' @ email), 500),
            st\<lparr>processed_webhooks := processed_webhooks st @ [json_dumps True (JObj kvs)],
               trace := trace st @ [SelectProcessed (json_dumps True (JObj kvs)),
                                    InsertProcessed (json_dumps True (JObj kvs)),
                                    GetUser (JStr email)]\<rparr>)"
proof -
  from assms(3) have "kvs \<noteq> []" by auto
  with assms(1) have "webhook_listener cfg req st = process_payload cfg (JObj kvs) st"
    by (simp add: webhook_listener_truthy)
  moreover have "fetch_user_details cfg (JStr email) s = (Inr JNull, emit (GetUser (JStr email)) s)"
    for s
    using assms(7)
    by (cases "users_api cfg (JStr email)") (simp_all add: fetch_user_details_def)
  ultimately show ?thesis
    using assms(2-6)
    by (simp add: process_payload_def Let_def py_get_def erpnext_doc_url_def notify_def emit_def
          py_str_def split: option.splits)
qed


text \<open>
  Line 230 in general: a dict payload whose \<open>reference_type\<close> is missing or is not a
  string ends in \<open>AttributeError\<close> once its fingerprint is committed, whatever else it
  holds.
\<close>

lemma no_reference_type_raises:
  assumes "parsed_payload req = Some (JObj kvs)" and "kvs \<noteq> []"
    and "json_dumps True (JObj kvs) \<notin> set (processed_webhooks st)"
    and "\<And>t. map_of kvs ''reference_type'' \<noteq> Some (JStr t)"
  shows "webhook_listener cfg req st =
           (Inl AttributeError,
            st\<lparr>processed_webhooks := processed_webhooks st @ [json_dumps True (JObj kvs)],
               trace := trace st @ [SelectProcessed (json_dumps True (JObj kvs)),
                                    InsertProcessed (json_dumps True (JObj kvs))]\<rparr>)"
proof -
  have "erpnext_doc_url cfg (case map_of kvs ''reference_type'' of None \<Rightarrow> JNull | Some v \<Rightarrow> v)
          rn = Inl AttributeError" for rn
    using assms(4)
    by (auto simp: erpnext_doc_url_def split: option.splits json.splits)
  moreover have "webhook_listener cfg req st = process_payload cfg (JObj kvs) st"
    using assms(1,2) by (simp add: webhook_listener_truthy)
  ultimately show ?thesis
    using assms(3) by (simp add: process_payload_def Let_def py_get_def emit_def)
qed

end
